theory Spec2Isabelle
  imports Complex_Main "HOL-Library.Product_Lexorder" "HOL-Library.Monad_Syntax"
begin

section \<open>Numbers, library calls and opaque capabilities\<close>

text \<open>
  The Python sources compute with floats. They are modelled as \<^typ>\<open>real\<close>: exact
  arithmetic on finite values, no NaN and no rounding. The decimal constants of the source
  (\<open>0.8\<close>, \<open>1.2\<close>, \<open>1.05\<close>, ...) are the rationals they denote. The calendar month is an
  \<^typ>\<open>int\<close>, as \<^verbatim>\<open>personalized_predict.py\<close> passes it (\<^verbatim>\<open>int(month)\<close>) and as the
  specification types it; \<^verbatim>\<open>expense_predictor.py\<close> parses it with \<^verbatim>\<open>float\<close>, and is modelled
  on whole months.

  \<^verbatim>\<open>np.clip(a, a_min, a_max)\<close> is NumPy's: its documentation gives it as
  \<^verbatim>\<open>np.minimum(a_max, np.maximum(a, a_min))\<close>, with no check that \<^verbatim>\<open>a_min <= a_max\<close>.
  Python's built-in \<^verbatim>\<open>min\<close> and \<^verbatim>\<open>max\<close> on two floats are \<^const>\<open>min\<close> and \<^const>\<open>max\<close>.

  \<open>np_clip\<close> below is this clip in exact arithmetic. In the running code the clipped
  value is a NumPy float32 (the regressor's output type) and the two bounds are Python
  floats: which precision the result has is decided by NumPy's promotion rules, and with a
  float32 result a bound is returned rounded to float32, an overflowing bound as infinity,
  and a NaN input as NaN. None of this is expressed here. What is proved with \<open>np_clip\<close>
  is therefore which function of the bounds and of the raw value is computed, and values
  at inputs where every intermediate result is exact; how far a returned float is from the
  float bounds is not a statement of this theory.
\<close>

definition np_clip :: "real \<Rightarrow> real \<Rightarrow> real \<Rightarrow> real" where
  "np_clip a a_min a_max = min a_max (max a a_min)"

text \<open>
  The regressor (a Keras model) and the scaler (a fitted \<^verbatim>\<open>StandardScaler\<close>) are opaque:
  a regressor is its \<^verbatim>\<open>predict\<close> on one row, a scaler is its \<^verbatim>\<open>transform\<close> on one row;
  \<open>None\<close> is a raised exception. A row is the list
  \<^verbatim>\<open>[income, expenses, month, savings]\<close>.
\<close>

type_synonym regressor = "real list \<Rightarrow> real option"
type_synonym scaler = "real list \<Rightarrow> real list option"

text \<open>
  A persisted artifact is a file: absent (\<open>None\<close>), present but not loadable
  (\<open>Some Unreadable\<close>, the loader raises), or present with a loadable object.
\<close>

datatype 'a artifact = Unreadable | Stored 'a

fun load :: "'a artifact option \<Rightarrow> 'a option" where
  "load None = None"
| "load (Some Unreadable) = None"
| "load (Some (Stored x)) = Some x"

section \<open>Bounds post-processing, as written in each of the three places\<close>

text \<open>\<^verbatim>\<open>expense_predictor.py\<close>, lines 73--96 (\<^verbatim>\<open>ExpensePredictor.predict\<close>).\<close>

definition base_post_process :: "real \<Rightarrow> real \<Rightarrow> int \<Rightarrow> real \<Rightarrow> real" where
  "base_post_process raw_prediction expenses month income =
    (let min_prediction = expenses * 0.8;
         max_prediction = expenses * 1.2;
         (min_prediction, max_prediction) =
           (if 10 \<le> month \<and> month \<le> 12 then (min_prediction, expenses * 1.3)
            else if 1 \<le> month \<and> month \<le> 2 then (expenses * 0.9, max_prediction)
            else (min_prediction, max_prediction));
         (min_prediction, max_prediction) =
           (if income > 0 then
              (let max_allowed = min (income * 0.3) (expenses * 1.5);
                   min_allowed = max (income * 0.01) (expenses * 0.5);
                   max_prediction = min max_prediction max_allowed;
                   min_prediction = max min_prediction min_allowed
               in (min_prediction, max_prediction))
            else (min_prediction, max_prediction))
     in np_clip raw_prediction min_prediction max_prediction)"

text \<open>\<^verbatim>\<open>personalized_model.py\<close>, lines 316--334 (the blended path of \<^verbatim>\<open>predict\<close>).\<close>

definition personal_post_process :: "real \<Rightarrow> real \<Rightarrow> int \<Rightarrow> real \<Rightarrow> real" where
  "personal_post_process prediction expenses month income =
    (let min_prediction = expenses * 0.8;
         max_prediction = expenses * 1.2;
         (min_prediction, max_prediction) =
           (if 10 \<le> month \<and> month \<le> 12 then (min_prediction, expenses * 1.3)
            else if 1 \<le> month \<and> month \<le> 2 then (expenses * 0.9, max_prediction)
            else (min_prediction, max_prediction));
         (min_prediction, max_prediction) =
           (if income > 0 then
              (let max_allowed = min (income * 0.3) (expenses * 1.5);
                   min_allowed = max (income * 0.01) (expenses * 0.5);
                   max_prediction = min max_prediction max_allowed;
                   min_prediction = max min_prediction min_allowed
               in (min_prediction, max_prediction))
            else (min_prediction, max_prediction))
     in np_clip prediction min_prediction max_prediction)"

text \<open>\<^verbatim>\<open>personalized_model.py\<close>, lines 355--370 (the fallback path of \<^verbatim>\<open>predict\<close>).\<close>

definition fallback_post_process :: "real \<Rightarrow> real \<Rightarrow> int \<Rightarrow> real \<Rightarrow> real" where
  "fallback_post_process base_prediction expenses month income =
    (let min_prediction = expenses * 0.8;
         max_prediction = expenses * 1.2;
         (min_prediction, max_prediction) =
           (if 10 \<le> month \<and> month \<le> 12 then (min_prediction, expenses * 1.3)
            else if 1 \<le> month \<and> month \<le> 2 then (expenses * 0.9, max_prediction)
            else (min_prediction, max_prediction));
         (min_prediction, max_prediction) =
           (if income > 0 then
              (let max_allowed = min (income * 0.3) (expenses * 1.5);
                   min_allowed = max (income * 0.01) (expenses * 0.5);
                   max_prediction = min max_prediction max_allowed;
                   min_prediction = max min_prediction min_allowed
               in (min_prediction, max_prediction))
            else (min_prediction, max_prediction))
     in np_clip base_prediction min_prediction max_prediction)"

section \<open>The bounds of section 4.1 of the specification\<close>

text \<open>
  These follow the words of the specification, to be compared with the three blocks above:
  base range, seasonal override by membership of the month in \<open>{10,11,12}\<close> or \<open>{1,2}\<close>,
  income cap by a three-way minimum and maximum.
\<close>

definition seasonalLower :: "real \<Rightarrow> int \<Rightarrow> real" where
  "seasonalLower expenses month =
    (if month \<in> {10, 11, 12} then expenses * 0.8
     else if month \<in> {1, 2} then expenses * 0.9
     else expenses * 0.8)"

definition seasonalUpper :: "real \<Rightarrow> int \<Rightarrow> real" where
  "seasonalUpper expenses month =
    (if month \<in> {10, 11, 12} then expenses * 1.3 else expenses * 1.2)"

definition lowerBound :: "real \<Rightarrow> int \<Rightarrow> real \<Rightarrow> real" where
  "lowerBound expenses month income =
    (if income > 0
     then max (seasonalLower expenses month) (max (income * 0.01) (expenses * 0.5))
     else seasonalLower expenses month)"

definition upperBound :: "real \<Rightarrow> int \<Rightarrow> real \<Rightarrow> real" where
  "upperBound expenses month income =
    (if income > 0
     then min (seasonalUpper expenses month) (min (income * 0.3) (expenses * 1.5))
     else seasonalUpper expenses month)"

definition clampPrediction :: "real \<Rightarrow> real \<Rightarrow> int \<Rightarrow> real \<Rightarrow> real" where
  "clampPrediction raw expenses month income =
    np_clip raw (lowerBound expenses month income) (upperBound expenses month income)"

section \<open>The base predictor (\<^verbatim>\<open>expense_predictor.py\<close>)\<close>

text \<open>
  Every failure of the base predictor ends the process with status 1 after a message; the
  model returns the reason as an error value. The base artifacts are the two files beside
  the scripts.
\<close>

datatype failure =
    InvalidInput | ModelFileMissing | ScalerFileMissing | LoadFailure
  | ScalerFailure | RegressorFailure

record base_artifacts =
  base_model_file :: "regressor artifact option"
  base_scaler_file :: "scaler artifact option"

record expense_predictor =
  ep_model :: regressor
  ep_scaler :: scaler

definition ExpensePredictor_init :: "base_artifacts \<Rightarrow> failure + expense_predictor" where
  "ExpensePredictor_init base =
    (case base_model_file base of
       None \<Rightarrow> Inl ModelFileMissing
     | Some mf \<Rightarrow>
        (case load (Some mf) of
           None \<Rightarrow> Inl LoadFailure
         | Some model \<Rightarrow>
            (case base_scaler_file base of
               None \<Rightarrow> Inl ScalerFileMissing
             | Some sf \<Rightarrow>
                (case load (Some sf) of
                   None \<Rightarrow> Inl LoadFailure
                 | Some scaler \<Rightarrow> Inr \<lparr>ep_model = model, ep_scaler = scaler\<rparr>))))"

definition ExpensePredictor_predict ::
  "expense_predictor \<Rightarrow> real \<Rightarrow> real \<Rightarrow> int \<Rightarrow> real \<Rightarrow> failure + real" where
  "ExpensePredictor_predict self income expenses0 month savings =
    (if income \<le> 0 then Inl InvalidInput
     else
       (let expenses = (if expenses0 \<le> 0 then max (income * 0.1) 1000 else expenses0)
        in if month < 1 \<or> month > 12 then Inl InvalidInput
           else
             (let input_data = [income, expenses, real_of_int month, savings]
              in case ep_scaler self input_data of
                   None \<Rightarrow> Inl ScalerFailure
                 | Some scaled_input \<Rightarrow>
                    (case ep_model self scaled_input of
                       None \<Rightarrow> Inl RegressorFailure
                     | Some raw_prediction \<Rightarrow>
                         Inr (base_post_process raw_prediction expenses month income)))))"

text \<open>\<^verbatim>\<open>main\<close> of \<^verbatim>\<open>expense_predictor.py\<close>: construct the predictor, then predict.\<close>

definition expense_predictor_main ::
  "base_artifacts \<Rightarrow> real \<Rightarrow> real \<Rightarrow> int \<Rightarrow> real \<Rightarrow> failure + real" where
  "expense_predictor_main base income expenses month savings =
    (case ExpensePredictor_init base of
       Inl e \<Rightarrow> Inl e
     | Inr predictor \<Rightarrow> ExpensePredictor_predict predictor income expenses month savings)"

section \<open>Per-user state (\<^verbatim>\<open>personalized_model.py\<close>)\<close>

text \<open>
  A transaction row of the CSV log. The \<^verbatim>\<open>date\<close> column is taken as parsed: only its year
  and month are read. \<^verbatim>\<open>year_month\<close> is the string \<^verbatim>\<open>%Y-%m\<close>; pandas timestamps have
  four-digit years, so the order of these strings is the order of the pairs (year, month).
  \<open>tid\<close> is the optional \<^verbatim>\<open>_id\<close> column (\<open>None\<close> is a missing value). The type is the
  string of the \<^verbatim>\<open>type\<close> column; a type other than income and expense is one more column of
  the pivot. Type names that \<^verbatim>\<open>read_csv\<close> reads as missing values, or that are the names of
  the pivot's index columns, and dates that pandas cannot hold, are not modelled.
\<close>

record txn =
  amount :: real
  ttype :: string
  date_year :: nat
  date_month :: nat
  currency :: string
  tid :: "string option"

record dataframe =
  id_column :: bool
  rows :: "txn list"

type_synonym timestamp = nat

record metadata =
  created_at :: timestamp
  last_trained :: "timestamp option"
  training_count :: nat
  transaction_count :: nat
  base_model_weight :: real
  personal_model_weight :: real
  performance_metrics :: "real option \<times> real option"

record user_store =
  model_file :: "regressor artifact option"
  scaler_file :: "scaler artifact option"
  data_file :: "dataframe option"
  metadata_file :: "metadata option"

definition empty_store :: user_store where
  "empty_store = \<lparr>model_file = None, scaler_file = None, data_file = None, metadata_file = None\<rparr>"

definition default_metadata :: "timestamp \<Rightarrow> metadata" where
  "default_metadata now =
    \<lparr>created_at = now, last_trained = None, training_count = 0, transaction_count = 0,
     base_model_weight = 1.0, personal_model_weight = 0.0,
     performance_metrics = (None, None)\<rparr>"

definition load_metadata :: "timestamp \<Rightarrow> user_store \<Rightarrow> metadata \<times> user_store" where
  "load_metadata now store =
    (case metadata_file store of
       Some md \<Rightarrow> (md, store)
     | None \<Rightarrow> (let md = default_metadata now in (md, store\<lparr>metadata_file := Some md\<rparr>)))"

text \<open>
  \<^verbatim>\<open>_initialize_from_base_model\<close>: the user's model file is written before the base scaler
  is loaded, so a base scaler that does not load leaves the model file written alone.
\<close>

definition initialize_from_base_model :: "base_artifacts \<Rightarrow> user_store \<Rightarrow> bool \<times> user_store" where
  "initialize_from_base_model base store =
    (if base_model_file base = None \<or> base_scaler_file base = None then (False, store)
     else
       (case load (base_model_file base) of
          None \<Rightarrow> (False, store)
        | Some base_model \<Rightarrow>
           (let store1 = store\<lparr>model_file := Some (Stored base_model)\<rparr>
            in case load (base_scaler_file base) of
                 None \<Rightarrow> (False, store1)
               | Some base_scaler \<Rightarrow>
                   (True, store1\<lparr>scaler_file := Some (Stored base_scaler)\<rparr>))))"

text \<open>\<^verbatim>\<open>__init__\<close>: the object is its in-memory metadata together with the user's files.\<close>

definition PersonalizedExpensePredictor_init ::
  "base_artifacts \<Rightarrow> timestamp \<Rightarrow> user_store \<Rightarrow> metadata \<times> user_store" where
  "PersonalizedExpensePredictor_init base now store =
    (let (md, store1) = load_metadata now store
     in if model_file store1 = None \<or> scaler_file store1 = None
        then (md, snd (initialize_from_base_model base store1))
        else (md, store1))"

subsection \<open>Adding transactions\<close>

text \<open>
  \<^verbatim>\<open>pd.concat\<close> gives a row of a frame without the \<^verbatim>\<open>_id\<close> column a missing \<^verbatim>\<open>_id\<close>;
  \<^verbatim>\<open>drop_duplicates(subset=['_id'])\<close> keeps the first row of each \<^verbatim>\<open>_id\<close> value, missing
  values counting as equal. The \<^verbatim>\<open>_id\<close> values are compared as the strings they are in the
  frames. The code reads the stored log back from its CSV file, where \<^verbatim>\<open>read_csv\<close> may give
  the column another type (ids made of digits only come back as numbers and no longer equal
  an incoming string): which rows are dropped, and so the transaction count, can differ
  from the code's on such ids. The properties below use of this operation only that it
  leaves the regressor and scaler files alone.
\<close>

definition frame_rows :: "dataframe \<Rightarrow> txn list" where
  "frame_rows df = (if id_column df then rows df else map (\<lambda>t. t\<lparr>tid := None\<rparr>) (rows df))"

definition concat_frames :: "dataframe \<Rightarrow> dataframe \<Rightarrow> dataframe" where
  "concat_frames a b =
    \<lparr>id_column = (id_column a \<or> id_column b), rows = frame_rows a @ frame_rows b\<rparr>"

fun drop_duplicates_by :: "('a \<Rightarrow> 'k) \<Rightarrow> 'k list \<Rightarrow> 'a list \<Rightarrow> 'a list" where
  "drop_duplicates_by f seen [] = []"
| "drop_duplicates_by f seen (x # xs) =
    (if f x \<in> set seen then drop_duplicates_by f seen xs
     else x # drop_duplicates_by f (f x # seen) xs)"

definition count_transactions :: "user_store \<Rightarrow> nat" where
  "count_transactions store =
    (case data_file store of None \<Rightarrow> 0 | Some data \<Rightarrow> length (rows data))"

definition add_transaction_data ::
  "dataframe \<Rightarrow> metadata \<times> user_store \<Rightarrow> metadata \<times> user_store" where
  "add_transaction_data transactions_df obj =
    (let (md, store) = obj;
         store1 =
           (case data_file store of
              Some existing_data \<Rightarrow>
                (let combined_data = concat_frames existing_data transactions_df;
                     combined_data =
                       (if id_column combined_data
                        then combined_data\<lparr>rows := drop_duplicates_by tid [] (rows combined_data)\<rparr>
                        else combined_data)
                 in store\<lparr>data_file := Some combined_data\<rparr>)
            | None \<Rightarrow> store\<lparr>data_file := Some transactions_df\<rparr>);
         md1 = md\<lparr>transaction_count := count_transactions store1\<rparr>
     in (md1, store1\<lparr>metadata_file := Some md1\<rparr>))"

subsection \<open>Building the training set\<close>

datatype prep_error = NoTransactionData | InsufficientDataTypes | InsufficientSequentialData

type_synonym month_key = "nat \<times> nat"

definition year_month :: "txn \<Rightarrow> month_key" where
  "year_month t = (date_year t, date_month t)"

text \<open>
  \<^verbatim>\<open>groupby(['year_month','month','type']).agg({'amount':'sum'})\<close>: one row per
  (month-key, type) that occurs, with the summed amount. The order of these rows does not
  matter: the pivot looks them up by key. The sum is exact here; pandas sums an integer
  column in 64-bit integers (wrapping around) and any other column in floats (rounding).
  Both are exact when the amounts are whole numbers whose absolute values add up to less
  than \<open>2^53\<close> (\<open>whole_amounts\<close> below), and the values of totals are stated for such logs.
\<close>

definition monthly_data :: "txn list \<Rightarrow> (month_key \<times> string \<times> real) list" where
  "monthly_data data =
    map (\<lambda>(k, ty). (k, ty, sum_list (map amount (filter (\<lambda>t. year_month t = k \<and> ttype t = ty) data))))
        (remdups (map (\<lambda>t. (year_month t, ttype t)) data))"

text \<open>
  \<^verbatim>\<open>pivot_table(index=['year_month','month'], columns='type', values='amount', fill_value=0)\<close>:
  the index is the sorted distinct month-keys, the columns are the types that occur, and a
  cell with no row of \<open>monthly_data\<close> is filled with 0.
\<close>

definition pivot_columns :: "(month_key \<times> string \<times> real) list \<Rightarrow> string list" where
  "pivot_columns md = remdups (map (\<lambda>(k, ty, v). ty) md)"

definition pivot_index :: "(month_key \<times> string \<times> real) list \<Rightarrow> month_key list" where
  "pivot_index md = sort (remdups (map (\<lambda>(k, ty, v). k) md))"

definition pivot_cell :: "(month_key \<times> string \<times> real) list \<Rightarrow> month_key \<Rightarrow> string \<Rightarrow> real" where
  "pivot_cell md k ty =
    (case find (\<lambda>(k', ty', v). k' = k \<and> ty' = ty) md of
       None \<Rightarrow> 0
     | Some (k', ty', v) \<Rightarrow> v)"

record monthly_row =
  row_year_month :: month_key
  row_income :: real
  row_expense :: real
  row_savings :: real

definition monthly_pivot :: "(month_key \<times> string \<times> real) list \<Rightarrow> monthly_row list" where
  "monthly_pivot md =
    map (\<lambda>k. \<lparr>row_year_month = k,
              row_income = pivot_cell md k ''income'',
              row_expense = pivot_cell md k ''expense'',
              row_savings = pivot_cell md k ''income'' - pivot_cell md k ''expense''\<rparr>)
        (pivot_index md)"

definition prepare_training_data :: "user_store \<Rightarrow> prep_error + (real list list \<times> real list)" where
  "prepare_training_data store =
    (case data_file store of
       None \<Rightarrow> Inl NoTransactionData
     | Some data \<Rightarrow>
        (let md = monthly_data (rows data)
         in if ''income'' \<notin> set (pivot_columns md) \<or> ''expense'' \<notin> set (pivot_columns md)
            then Inl InsufficientDataTypes
            else
              (let pivot = sort_key row_year_month (monthly_pivot md);
                   X_data = map (\<lambda>i. (let current = pivot ! i
                                       in [row_income current, row_expense current,
                                           real (snd (row_year_month current)),
                                           row_savings current]))
                                [0 ..< length pivot - 1];
                   y_data = map (\<lambda>i. (let next_month = pivot ! (i + 1)
                                       in row_expense next_month))
                                [0 ..< length pivot - 1]
               in if X_data = [] \<or> y_data = [] then Inl InsufficientSequentialData
                  else Inr (X_data, y_data))))"

subsection \<open>Training\<close>

text \<open>
  \<^verbatim>\<open>model.fit\<close> is opaque: given the loaded regressor, the scaled features, the targets and
  the arguments the source passes, it yields the fitted regressor and the Keras history, or
  raises (\<open>None\<close>). Of the history only the two series the source reads are kept; a key
  that is absent is \<open>None\<close>.
\<close>

record fit_args =
  epochs :: nat
  batch_size :: nat
  validation_split :: real
  patience :: nat
  restore_best_weights :: bool

record history =
  val_mae :: "real list option"
  val_loss :: "real list option"

type_synonym fit = "regressor \<Rightarrow> real list list \<Rightarrow> real list \<Rightarrow> fit_args \<Rightarrow> (regressor \<times> history) option"

text \<open>\<^verbatim>\<open>h[key][-1] if key in h else None\<close>; the outer \<open>None\<close> is the IndexError of an empty series.\<close>

definition history_last :: "real list option \<Rightarrow> real option option" where
  "history_last series =
    (case series of
       None \<Rightarrow> Some None
     | Some xs \<Rightarrow> (if xs = [] then None else Some (Some (last xs))))"

definition train_model ::
  "fit \<Rightarrow> timestamp \<Rightarrow> nat \<Rightarrow> real \<Rightarrow> metadata \<times> user_store \<Rightarrow> bool \<times> metadata \<times> user_store" where
  "train_model fit now n_epochs split obj =
    (let (md, store) = obj
     in case prepare_training_data store of
          Inl e \<Rightarrow> (False, md, store)
        | Inr (X, y) \<Rightarrow>
           (if length X < 3 then (False, md, store)
            else
              (case load (model_file store) of
                 None \<Rightarrow> (False, md, store)
               | Some model \<Rightarrow>
                  (case load (scaler_file store) of
                     None \<Rightarrow> (False, md, store)
                   | Some scaler \<Rightarrow>
                      (case those (map scaler X) of
                         None \<Rightarrow> (False, md, store)
                       | Some X_scaled \<Rightarrow>
                          (case fit model X_scaled y
                                  \<lparr>epochs = n_epochs, batch_size = min 32 (length X),
                                   validation_split = split, patience = 10,
                                   restore_best_weights = True\<rparr> of
                             None \<Rightarrow> (False, md, store)
                           | Some (model', hist) \<Rightarrow>
                              (let store1 = store\<lparr>model_file := Some (Stored model')\<rparr>;
                                   md1 = md\<lparr>last_trained := Some now,
                                            training_count := training_count md + 1\<rparr>;
                                   tc = transaction_count md1;
                                   md2 =
                                     (if tc > 100
                                      then md1\<lparr>base_model_weight := 0.3, personal_model_weight := 0.7\<rparr>
                                      else if tc > 50
                                      then md1\<lparr>base_model_weight := 0.5, personal_model_weight := 0.5\<rparr>
                                      else if tc > 20
                                      then md1\<lparr>base_model_weight := 0.7, personal_model_weight := 0.3\<rparr>
                                      else md1)
                               in case history_last (val_mae hist) of
                                    None \<Rightarrow> (False, md2, store1)
                                  | Some v_mae \<Rightarrow>
                                     (case history_last (val_loss hist) of
                                        None \<Rightarrow> (False, md2, store1)
                                      | Some v_mse \<Rightarrow>
                                         (let md3 = md2\<lparr>performance_metrics := (v_mae, v_mse)\<rparr>
                                          in (True, md3, store1\<lparr>metadata_file := Some md3\<rparr>))))))))))"

subsection \<open>Personalized prediction\<close>

text \<open>
  \<^verbatim>\<open>predict\<close> returns a float, or Python's \<^verbatim>\<open>None\<close> where the function body ends without a
  \<^verbatim>\<open>return\<close>. The body of the outer \<^verbatim>\<open>try\<close> is \<open>personal_path\<close> (\<open>None\<close>: an exception was
  raised); the handler is \<open>fallback_path\<close>.
\<close>

datatype pyval = PyFloat real | PyNone

definition base_files_exist :: "base_artifacts \<Rightarrow> bool" where
  "base_files_exist base = (base_model_file base \<noteq> None \<and> base_scaler_file base \<noteq> None)"

definition personal_path ::
  "base_artifacts \<Rightarrow> metadata \<times> user_store \<Rightarrow> real \<Rightarrow> real \<Rightarrow> int \<Rightarrow> real \<Rightarrow> real option" where
  "personal_path base obj income expenses month savings =
    (let (md, store) = obj in
     do {
       model \<leftarrow> load (model_file store);
       scaler \<leftarrow> load (scaler_file store);
       let input_data = [income, expenses, real_of_int month, savings];
       scaled_input \<leftarrow> scaler input_data;
       prediction \<leftarrow> model scaled_input;
       let base_weight = base_model_weight md;
       let personal_weight = personal_model_weight md;
       prediction \<leftarrow>
         (if base_weight > 0 then
            (if base_files_exist base then
               do {
                 base_model \<leftarrow> load (base_model_file base);
                 base_scaler \<leftarrow> load (base_scaler_file base);
                 base_scaled_input \<leftarrow> base_scaler input_data;
                 base_prediction \<leftarrow> base_model base_scaled_input;
                 Some ((base_prediction * base_weight) + (prediction * personal_weight))
               }
             else Some prediction)
          else Some prediction);
       Some (personal_post_process prediction expenses month income)
     })"

definition fallback_path :: "base_artifacts \<Rightarrow> real \<Rightarrow> real \<Rightarrow> int \<Rightarrow> real \<Rightarrow> pyval" where
  "fallback_path base income expenses month savings =
    (if base_files_exist base then
       (case do {
               base_model \<leftarrow> load (base_model_file base);
               base_scaler \<leftarrow> load (base_scaler_file base);
               let input_data = [income, expenses, real_of_int month, savings];
               base_scaled_input \<leftarrow> base_scaler input_data;
               base_prediction \<leftarrow> base_model base_scaled_input;
               Some (fallback_post_process base_prediction expenses month income)
             } of
          Some final_prediction \<Rightarrow> PyFloat final_prediction
        | None \<Rightarrow> PyFloat (expenses * 1.05))
     else PyNone)"

definition predict ::
  "base_artifacts \<Rightarrow> metadata \<times> user_store \<Rightarrow> real \<Rightarrow> real \<Rightarrow> int \<Rightarrow> real \<Rightarrow> pyval" where
  "predict base obj income expenses month savings =
    (case personal_path base obj income expenses month savings of
       Some final_prediction \<Rightarrow> PyFloat final_prediction
     | None \<Rightarrow> fallback_path base income expenses month savings)"

text \<open>
  \<^verbatim>\<open>predict(user_id, ...)\<close> of \<^verbatim>\<open>personalized_predict.py\<close>: construct the object for the
  user, then predict. The value is what the script prints.
\<close>

definition personalized_predict ::
  "base_artifacts \<Rightarrow> timestamp \<Rightarrow> user_store \<Rightarrow> real \<Rightarrow> real \<Rightarrow> int \<Rightarrow> real \<Rightarrow> pyval" where
  "personalized_predict base now store income expenses month savings =
    predict base (PersonalizedExpensePredictor_init base now store) income expenses month savings"

subsection \<open>Sequences of operations on one user's state\<close>

text \<open>
  The operations that touch a user's state are the constructor (run at the start of every
  script, with the base artifacts as they are at that moment), \<^verbatim>\<open>add_transaction_data\<close>,
  \<^verbatim>\<open>train_model\<close> and \<^verbatim>\<open>predict\<close>, which writes nothing.
\<close>

datatype operation =
    Construct base_artifacts timestamp
  | AddTransactions dataframe
  | Train fit timestamp nat real
  | Predict base_artifacts real real int real

fun step :: "operation \<Rightarrow> metadata \<times> user_store \<Rightarrow> metadata \<times> user_store" where
  "step (Construct base now) obj = PersonalizedExpensePredictor_init base now (snd obj)"
| "step (AddTransactions df) obj = add_transaction_data df obj"
| "step (Train f now n_epochs split) obj = snd (train_model f now n_epochs split obj)"
| "step (Predict base income expenses month savings) obj = obj"

fun run :: "operation list \<Rightarrow> metadata \<times> user_store \<Rightarrow> metadata \<times> user_store" where
  "run [] obj = obj"
| "run (op # ops) obj = run ops (step op obj)"

text \<open>
  The constructor bootstraps again whenever one of the two artifacts is missing. A store
  is \<open>paired\<close> when its scaler file does not exist without its model file.
\<close>

definition paired :: "user_store \<Rightarrow> bool" where
  "paired store = (scaler_file store \<noteq> None \<longrightarrow> model_file store \<noteq> None)"

section \<open>Notions of the specification used to state the properties\<close>

text \<open>
  The month-keys of a log in chronological order, the total of one type in one month, and
  whether a type occurs in the log or in one month of it.
\<close>

definition month_keys :: "txn list \<Rightarrow> month_key list" where
  "month_keys txns = sorted_list_of_set (year_month ` set txns)"

definition month_total :: "txn list \<Rightarrow> month_key \<Rightarrow> string \<Rightarrow> real" where
  "month_total txns k ty =
    sum_list (map amount (filter (\<lambda>t. year_month t = k \<and> ttype t = ty) txns))"

definition type_present :: "txn list \<Rightarrow> string \<Rightarrow> bool" where
  "type_present txns ty = (ty \<in> ttype ` set txns)"

definition type_present_in_month :: "txn list \<Rightarrow> month_key \<Rightarrow> string \<Rightarrow> bool" where
  "type_present_in_month txns k ty = ((k, ty) \<in> (\<lambda>t. (year_month t, ttype t)) ` set txns)"





text \<open>The features and the target of the training pair at position \<open>i\<close> of the sorted month-keys.\<close>

definition pair_features :: "txn list \<Rightarrow> nat \<Rightarrow> real list" where
  "pair_features txns i =
    (let k = month_keys txns ! i
     in [month_total txns k ''income'', month_total txns k ''expense'', real (snd k),
         month_total txns k ''income'' - month_total txns k ''expense''])"

definition pair_target :: "txn list \<Rightarrow> nat \<Rightarrow> real" where
  "pair_target txns i = month_total txns (month_keys txns ! (i + 1)) ''expense''"

text \<open>
  The weight table of section 4.4, by its rows: more than 100, 51 to 100, 21 to 50, and at
  most 20, where the prior pair is kept.
\<close>

definition computeWeights :: "nat \<Rightarrow> real \<times> real \<Rightarrow> real \<times> real" where
  "computeWeights transactionCount prior =
    (if transactionCount > 100 then (0.3, 0.7)
     else if 51 \<le> transactionCount \<and> transactionCount \<le> 100 then (0.5, 0.5)
     else if 21 \<le> transactionCount \<and> transactionCount \<le> 50 then (0.7, 0.3)
     else prior)"

definition weights_of :: "metadata \<Rightarrow> real \<times> real" where
  "weights_of md = (base_model_weight md, personal_model_weight md)"

definition default_weights :: "real \<times> real" where
  "default_weights = weights_of (default_metadata 0)"

section \<open>Concrete artifacts and logs\<close>

text \<open>
  A regressor and a scaler to run the definitions on: the scaler leaves a row as it is and
  the regressor returns the sum of the row.
\<close>

definition sum_regressor :: regressor where
  "sum_regressor x = Some (sum_list x)"

definition id_scaler :: scaler where
  "id_scaler x = Some x"

definition demo_base :: base_artifacts where
  "demo_base = \<lparr>base_model_file = Some (Stored sum_regressor),
                base_scaler_file = Some (Stored id_scaler)\<rparr>"

definition no_base :: base_artifacts where
  "no_base = \<lparr>base_model_file = None, base_scaler_file = None\<rparr>"

definition corrupt_user_store :: user_store where
  "corrupt_user_store =
    \<lparr>model_file = Some Unreadable, scaler_file = Some (Stored id_scaler),
     data_file = None, metadata_file = Some (default_metadata 0)\<rparr>"

definition txn_of :: "real \<Rightarrow> string \<Rightarrow> nat \<Rightarrow> nat \<Rightarrow> txn" where
  "txn_of a ty y m =
    \<lparr>amount = a, ttype = ty, date_year = y, date_month = m, currency = ''INR'', tid = None\<rparr>"

definition frame_of :: "txn list \<Rightarrow> dataframe" where
  "frame_of txns = \<lparr>id_column = False, rows = txns\<rparr>"

definition store_of :: "txn list \<Rightarrow> user_store" where
  "store_of txns = empty_store\<lparr>data_file := Some (frame_of txns)\<rparr>"



definition gap_log :: "txn list" where
  "gap_log =
    [txn_of 1000 ''income'' 2024 1,
     txn_of 1100 ''income'' 2024 2, txn_of 750 ''expense'' 2024 2]"


definition four_month_log :: "txn list" where
  "four_month_log =
    [txn_of 1000 ''income'' 2024 1, txn_of 800 ''expense'' 2024 1,
     txn_of 1100 ''income'' 2024 2, txn_of 750 ''expense'' 2024 2,
     txn_of 1200 ''income'' 2024 3, txn_of 900 ''expense'' 2024 3,
     txn_of 1300 ''income'' 2024 4, txn_of 950 ''expense'' 2024 4]"

definition half_scaler :: scaler where
  "half_scaler x = Some (map (\<lambda>v. v / 2) x)"

definition other_base :: base_artifacts where
  "other_base = \<lparr>base_model_file = Some (Stored sum_regressor),
                 base_scaler_file = Some (Stored half_scaler)\<rparr>"

definition demo_fit :: fit where
  "demo_fit model X_scaled y args =
    Some (model, \<lparr>val_mae = Some [2, 1], val_loss = Some [4, 3]\<rparr>)"

text \<open>A user bootstrapped from \<open>demo_base\<close> whose log holds four months of both types.\<close>

definition four_month_user :: "metadata \<times> user_store" where
  "four_month_user =
    add_transaction_data (frame_of four_month_log)
      (PersonalizedExpensePredictor_init demo_base 0 empty_store)"

text \<open>A session: bootstrap, then more operations, among them a constructor run after the base scaler was replaced.\<close>

definition session_start :: "operation list" where
  "session_start = [Construct demo_base 0]"

definition session_later :: "operation list" where
  "session_later =
    [AddTransactions (frame_of four_month_log), Train demo_fit 7 100 0.2,
     Construct other_base 9, Predict other_base 50000 5000 11 10000,
     Train demo_fit 20 100 0.2]"

section \<open>Properties of the bounds post-processing\<close>

lemma month_sets:
  "(m \<in> {10, 11, 12}) = (10 \<le> m \<and> m \<le> (12::int))"
  "(m \<in> {1, 2}) = (1 \<le> m \<and> m \<le> (2::int))"
  by auto

lemma np_clip_ordered:
  "lo \<le> hi \<Longrightarrow> np_clip a lo hi = (if a < lo then lo else if hi < a then hi else a)"
  by (auto simp: np_clip_def min_def max_def)

lemma base_post_process_clamp:
  "base_post_process raw e m i = clampPrediction raw e m i"
  by (simp add: base_post_process_def clampPrediction_def lowerBound_def upperBound_def
      seasonalLower_def seasonalUpper_def month_sets Let_def)

lemma personal_post_process_clamp:
  "personal_post_process raw e m i = clampPrediction raw e m i"
  by (simp add: personal_post_process_def clampPrediction_def lowerBound_def upperBound_def
      seasonalLower_def seasonalUpper_def month_sets Let_def)

lemma fallback_post_process_clamp:
  "fallback_post_process raw e m i = clampPrediction raw e m i"
  by (simp add: fallback_post_process_def clampPrediction_def lowerBound_def upperBound_def
      seasonalLower_def seasonalUpper_def month_sets Let_def)

lemma ExpensePredictor_predict_clamped:
  "ExpensePredictor_predict self income expenses month savings = Inr r \<Longrightarrow>
   \<exists>raw. r = clampPrediction raw (if expenses \<le> 0 then max (income * 0.1) 1000 else expenses)
                month income"
  by (auto simp: ExpensePredictor_predict_def Let_def base_post_process_clamp
      split: if_splits option.splits)

lemma personal_path_clamped:
  "personal_path base obj income expenses month savings = Some r \<Longrightarrow>
   \<exists>raw. r = clampPrediction raw expenses month income"
  by (cases obj)
     (auto simp: personal_path_def Let_def personal_post_process_clamp bind_eq_Some_conv)

lemma fallback_path_clamped:
  "fallback_path base income expenses month savings = PyFloat r \<Longrightarrow>
   (\<exists>raw. r = clampPrediction raw expenses month income) \<or> r = expenses * 1.05"
  by (auto simp: fallback_path_def Let_def fallback_post_process_clamp bind_eq_Some_conv
      split: if_splits option.splits)

lemma clampPrediction_ordered:
  "lowerBound expenses month income \<le> upperBound expenses month income \<Longrightarrow>
   clampPrediction raw expenses month income =
     (if raw < lowerBound expenses month income then lowerBound expenses month income
      else if upperBound expenses month income < raw then upperBound expenses month income
      else raw)"
  by (simp add: clampPrediction_def np_clip_ordered)

text \<open>
  Claim C4. The post-processing written in the base predictor, in the blended path and in
  the fallback path of the personalized predictor is one and the same function of
  (raw, expenses, month, income), and it is the function of section 4.1: base range
  \<open>[expenses*0.8, expenses*1.2]\<close>; upper bound \<open>expenses*1.3\<close> for months 10--12, else lower
  bound \<open>expenses*0.9\<close> for months 1--2, months 3--9 unadjusted; only for positive income the
  upper bound capped by \<open>income*0.3\<close> and \<open>expenses*1.5\<close> and the lower bound raised to
  \<open>income*0.01\<close> and \<open>expenses*0.5\<close>; the raw value clipped to the two bounds, which
  for ordered bounds is the usual clamp. Every value that the base predictor, the blended
  path or the fallback path returns after inference is a value of this function at the
  expenses the path works with.
\<close>

theorem post_process_is_clampPrediction:
  "base_post_process raw expenses month income = clampPrediction raw expenses month income
   \<and> personal_post_process raw expenses month income = clampPrediction raw expenses month income
   \<and> fallback_post_process raw expenses month income = clampPrediction raw expenses month income
   \<and> (lowerBound expenses month income \<le> upperBound expenses month income \<longrightarrow>
        clampPrediction raw expenses month income =
          (if raw < lowerBound expenses month income then lowerBound expenses month income
           else if upperBound expenses month income < raw then upperBound expenses month income
           else raw))
   \<and> (ExpensePredictor_predict self income expenses month savings = Inr r1 \<longrightarrow>
        (\<exists>raw1. r1 = clampPrediction raw1
                   (if expenses \<le> 0 then max (income * 0.1) 1000 else expenses) month income))
   \<and> (personal_path base obj income expenses month savings = Some r2 \<longrightarrow>
        (\<exists>raw2. r2 = clampPrediction raw2 expenses month income))
   \<and> (fallback_path base income expenses month savings = PyFloat r3 \<longrightarrow>
        (\<exists>raw3. r3 = clampPrediction raw3 expenses month income) \<or> r3 = expenses * 1.05)"
  using base_post_process_clamp [of raw expenses month income]
    personal_post_process_clamp [of raw expenses month income]
    fallback_post_process_clamp [of raw expenses month income]
    clampPrediction_ordered [of expenses month income raw]
    ExpensePredictor_predict_clamped [of self income expenses month savings r1]
    personal_path_clamped [of base obj income expenses month savings r2]
    fallback_path_clamped [of base income expenses month savings r3]
  by blast

theorem post_process_is_clampPrediction_witness:
  "lowerBound 5000 11 50000 \<le> upperBound 5000 11 50000
   \<and> clampPrediction 9000 5000 11 50000 = 6500
   \<and> ExpensePredictor_predict \<lparr>ep_model = sum_regressor, ep_scaler = id_scaler\<rparr> 50000 5000 11 10000
       = Inr 6500
   \<and> personal_path demo_base four_month_user 50000 5000 11 10000 = Some 6500
   \<and> fallback_path demo_base 50000 5000 11 10000 = PyFloat 6500
   \<and> (\<exists>raw. 6500 = clampPrediction raw 5000 11 50000)"
proof -
  have bounds: "lowerBound 5000 11 50000 = 4000" "upperBound 5000 11 50000 = 6500"
    by (simp_all add: lowerBound_def upperBound_def seasonalLower_def seasonalUpper_def)
  have ord: "lowerBound 5000 11 50000 \<le> upperBound 5000 11 50000"
    by (simp add: bounds)
  have b: "ExpensePredictor_predict \<lparr>ep_model = sum_regressor, ep_scaler = id_scaler\<rparr>
             50000 5000 11 10000 = Inr 6500"
    by code_simp
  have p: "personal_path demo_base four_month_user 50000 5000 11 10000 = Some 6500"
    by code_simp
  have f: "fallback_path demo_base 50000 5000 11 10000 = PyFloat 6500"
    by code_simp
  note inst = post_process_is_clampPrediction
      [of 9000 5000 11 50000 "\<lparr>ep_model = sum_regressor, ep_scaler = id_scaler\<rparr>" 10000 6500
          demo_base four_month_user 6500 6500]
  from inst ord have c: "clampPrediction 9000 5000 11 50000 = 6500"
    by (simp add: bounds)
  from inst p have e: "\<exists>raw. 6500 = clampPrediction raw 5000 11 50000"
    by blast
  from ord c b p f e show ?thesis by blast
qed

section \<open>Properties of the personalized prediction\<close>

lemma predict_None_iff:
  "predict base obj income expenses month savings = PyNone
   \<longleftrightarrow> personal_path base obj income expenses month savings = None \<and> \<not> base_files_exist base"
  by (simp add: predict_def fallback_path_def split: option.splits)

lemma predict_float_if_base_files_exist:
  "base_files_exist base \<Longrightarrow> \<exists>r. predict base obj income expenses month savings = PyFloat r"
  by (cases "predict base obj income expenses month savings") (simp_all add: predict_None_iff)

lemma predict_personal_failure:
  "personal_path base obj income expenses month savings = None \<Longrightarrow>
   predict base obj income expenses month savings = fallback_path base income expenses month savings"
  by (simp add: predict_def)

lemma personal_path_unreadable_model:
  "model_file (snd obj) = Some Unreadable \<Longrightarrow>
   personal_path base obj income expenses month savings = None"
  by (cases obj) (simp add: personal_path_def)

text \<open>
  On an observation that the base predictor accepts without substituting the expenses, the
  fallback path returns what the base predictor returns, whenever the latter returns.
\<close>

lemma fallback_agrees_on_valid_input:
  assumes "0 < income" "0 < expenses" "1 \<le> month" "month \<le> 12"
    and "expense_predictor_main base income expenses month savings = Inr r"
  shows "fallback_path base income expenses month savings = PyFloat r"
proof -
  from assms(5) obtain p where p: "ExpensePredictor_init base = Inr p"
    and r: "ExpensePredictor_predict p income expenses month savings = Inr r"
    by (auto simp: expense_predictor_main_def split: sum.splits)
  from p have files: "base_files_exist base"
    and lm: "load (base_model_file base) = Some (ep_model p)"
    and ls: "load (base_scaler_file base) = Some (ep_scaler p)"
    by (auto simp: ExpensePredictor_init_def base_files_exist_def split: option.splits)
  from r assms(1-4) obtain scaled raw where
    sc: "ep_scaler p [income, expenses, real_of_int month, savings] = Some scaled"
    and raw: "ep_model p scaled = Some raw"
    and res: "r = base_post_process raw expenses month income"
    by (auto simp: ExpensePredictor_predict_def Let_def split: option.splits if_splits)
  show ?thesis
    by (simp add: fallback_path_def files lm ls sc raw res
        base_post_process_clamp fallback_post_process_clamp)
qed

text \<open>
  Claim C1. The claim is that the personalized prediction always returns a float. For a
  user without artifacts while the base model files are absent, the personalized path
  raises, the handler finds no base files, and the function body ends without a
  \<^verbatim>\<open>return\<close>: the value is Python's \<^verbatim>\<open>None\<close>, neither a float nor the estimate
  \<open>expenses*1.05\<close>.
\<close>

theorem predict_without_base_files_returns_None:
  "personalized_predict no_base 0 empty_store 50000 5000 11 10000 = PyNone"
  by code_simp

text \<open>
  Claim C2. The claim is that the personalized prediction validates its observation. It
  does not: for a fresh user with income 50000, expenses 0, month 11 and savings 10000 the
  bounds are computed from expenses 0 and the result is 0, where the base predictor
  substitutes 5000 and returns a value capped at 6500; a negative income and a month 13
  are answered with a float where the base predictor reports invalid input.
\<close>

theorem predict_does_not_validate:
  "personalized_predict demo_base 0 empty_store 50000 0 11 10000 = PyFloat 0
   \<and> expense_predictor_main demo_base 50000 0 11 10000 = Inr 6500
   \<and> personalized_predict demo_base 0 empty_store (- 5) 100 11 0 = PyFloat 106
   \<and> expense_predictor_main demo_base (- 5) 100 11 0 = Inl InvalidInput
   \<and> personalized_predict demo_base 0 empty_store 50000 5000 13 10000 = PyFloat 6000
   \<and> expense_predictor_main demo_base 50000 5000 13 10000 = Inl InvalidInput"
  by code_simp

text \<open>
  Claim C8. The claim is that with an unreadable user regressor the personalized
  prediction equals the base predictor's on identical inputs. With income 30000, expenses
  0, month 3 and savings 2000 the fallback path clips to bounds computed from expenses 0
  and returns 0, while the base predictor substitutes expenses 3000 and returns 3600.
\<close>

theorem fallback_differs_from_base_predictor:
  "model_file corrupt_user_store = Some Unreadable
   \<and> predict demo_base (default_metadata 0, corrupt_user_store) 30000 0 3 2000 = PyFloat 0
   \<and> expense_predictor_main demo_base 30000 0 3 2000 = Inr 3600"
proof -
  have unreadable: "model_file corrupt_user_store = Some Unreadable"
    by (simp add: corrupt_user_store_def)
  have fallback: "predict demo_base (default_metadata 0, corrupt_user_store) 30000 0 3 2000 = PyFloat 0"
    by code_simp
  have base: "expense_predictor_main demo_base 30000 0 3 2000 = Inr 3600"
    by code_simp
  from unreadable fallback base show ?thesis by blast
qed

section \<open>Properties of training\<close>

lemma train_model_files:
  "scaler_file (snd (snd (train_model f now n split obj))) = scaler_file (snd obj)
   \<and> data_file (snd (snd (train_model f now n split obj))) = data_file (snd obj)"
  by (cases obj)
     (simp add: train_model_def Let_def split: sum.splits option.splits prod.splits)

lemma train_model_model_file:
  "model_file (snd obj) \<noteq> None \<Longrightarrow>
   model_file (snd (snd (train_model f now n split obj))) \<noteq> None"
  by (cases obj)
     (simp add: train_model_def Let_def split: sum.splits option.splits prod.splits)

text \<open>What a training run that reports success has gone through.\<close>

lemma train_model_success_cases:
  assumes "fst (train_model f now n split (md, store))"
  obtains X y model sc X_scaled model' hist v_mae v_mse where
    "prepare_training_data store = Inr (X, y)" "3 \<le> length X"
    "load (model_file store) = Some model" "load (scaler_file store) = Some sc"
    "those (map sc X) = Some X_scaled"
    "f model X_scaled y
       \<lparr>epochs = n, batch_size = min 32 (length X), validation_split = split,
        patience = 10, restore_best_weights = True\<rparr> = Some (model', hist)"
    "history_last (val_mae hist) = Some v_mae" "history_last (val_loss hist) = Some v_mse"
  using assms
  by (auto simp: train_model_def Let_def split: sum.splits option.splits prod.splits if_splits)

lemma train_model_success_value:
  assumes "prepare_training_data store = Inr (X, y)" "3 \<le> length X"
    "load (model_file store) = Some model" "load (scaler_file store) = Some sc"
    "those (map sc X) = Some X_scaled"
    "f model X_scaled y
       \<lparr>epochs = n, batch_size = min 32 (length X), validation_split = split,
        patience = 10, restore_best_weights = True\<rparr> = Some (model', hist)"
    "history_last (val_mae hist) = Some v_mae" "history_last (val_loss hist) = Some v_mse"
  shows "model_file (snd (snd (train_model f now n split (md, store)))) = Some (Stored model')"
    and "metadata_file (snd (snd (train_model f now n split (md, store))))
          = Some (fst (snd (train_model f now n split (md, store))))"
    and "weights_of (fst (snd (train_model f now n split (md, store))))
          = computeWeights (transaction_count md) (weights_of md)"
    and "training_count (fst (snd (train_model f now n split (md, store)))) = training_count md + 1"
    and "last_trained (fst (snd (train_model f now n split (md, store)))) = Some now"
    and "performance_metrics (fst (snd (train_model f now n split (md, store)))) = (v_mae, v_mse)"
  using assms
  by (simp_all add: train_model_def Let_def weights_of_def computeWeights_def)

text \<open>
  Claim C7. After a training run that reports success, the pair (base weight, personal
  weight) of the metadata is the row of the table of section 4.4 selected by the
  transaction count the metadata held: above 100 it is (0.3, 0.7), from 51 to 100 it is
  (0.5, 0.5), from 21 to 50 it is (0.7, 0.3), and up to 20 it is the prior pair, whose
  default is (1.0, 0.0). From the default pair the personal weight does not decrease and
  the base weight does not increase as the count grows.
\<close>

theorem train_model_recomputes_weights:
  "(fst (train_model f now n split (md, store)) \<longrightarrow>
      weights_of (fst (snd (train_model f now n split (md, store))))
        = computeWeights (transaction_count md) (weights_of md))
   \<and> (tc > 100 \<longrightarrow> computeWeights tc prior = (0.3, 0.7))
   \<and> (51 \<le> tc \<and> tc \<le> 100 \<longrightarrow> computeWeights tc prior = (0.5, 0.5))
   \<and> (21 \<le> tc \<and> tc \<le> 50 \<longrightarrow> computeWeights tc prior = (0.7, 0.3))
   \<and> (tc \<le> 20 \<longrightarrow> computeWeights tc prior = prior)
   \<and> default_weights = (1.0, 0.0)
   \<and> computeWeights 101 default_weights = (0.3, 0.7)
   \<and> computeWeights 75 default_weights = (0.5, 0.5)
   \<and> computeWeights 30 default_weights = (0.7, 0.3)
   \<and> computeWeights 5 default_weights = (1.0, 0.0)
   \<and> (n1 \<le> n2 \<longrightarrow>
        snd (computeWeights n1 default_weights) \<le> snd (computeWeights n2 default_weights)
        \<and> fst (computeWeights n2 default_weights) \<le> fst (computeWeights n1 default_weights))"
proof -
  have trained: "fst (train_model f now n split (md, store)) \<longrightarrow>
      weights_of (fst (snd (train_model f now n split (md, store))))
        = computeWeights (transaction_count md) (weights_of md)"
  proof
    assume ok: "fst (train_model f now n split (md, store))"
    then show "weights_of (fst (snd (train_model f now n split (md, store))))
        = computeWeights (transaction_count md) (weights_of md)"
      by (rule train_model_success_cases) (rule train_model_success_value(3))
  qed
  have table: "(tc > 100 \<longrightarrow> computeWeights tc prior = (0.3, 0.7))
     \<and> (51 \<le> tc \<and> tc \<le> 100 \<longrightarrow> computeWeights tc prior = (0.5, 0.5))
     \<and> (21 \<le> tc \<and> tc \<le> 50 \<longrightarrow> computeWeights tc prior = (0.7, 0.3))
     \<and> (tc \<le> 20 \<longrightarrow> computeWeights tc prior = prior)"
    by (simp add: computeWeights_def)
  have dflt: "default_weights = (1.0, 0.0)"
    by (simp add: default_weights_def weights_of_def default_metadata_def)
  have examples: "computeWeights 101 default_weights = (0.3, 0.7)
     \<and> computeWeights 75 default_weights = (0.5, 0.5)
     \<and> computeWeights 30 default_weights = (0.7, 0.3)
     \<and> computeWeights 5 default_weights = (1.0, 0.0)"
    by (simp add: computeWeights_def dflt)
  have mono: "n1 \<le> n2 \<longrightarrow>
        snd (computeWeights n1 default_weights) \<le> snd (computeWeights n2 default_weights)
        \<and> fst (computeWeights n2 default_weights) \<le> fst (computeWeights n1 default_weights)"
    by (simp add: computeWeights_def dflt)
  from trained table dflt examples mono show ?thesis by blast
qed

theorem train_model_recomputes_weights_witness:
  "fst (train_model demo_fit 7 100 0.2 (fst four_month_user\<lparr>transaction_count := 30\<rparr>, snd four_month_user))
   \<and> weights_of (fst four_month_user\<lparr>transaction_count := 30\<rparr>) = (1, 0)
   \<and> weights_of (fst (snd (train_model demo_fit 7 100 0.2
        (fst four_month_user\<lparr>transaction_count := 30\<rparr>, snd four_month_user)))) = (0.7, 0.3)"
proof -
  let ?md = "fst four_month_user\<lparr>transaction_count := 30\<rparr>"
  have ok: "fst (train_model demo_fit 7 100 0.2 (?md, snd four_month_user))"
    by code_simp
  have tc: "transaction_count ?md = 30" by simp
  have prior: "weights_of ?md = (1, 0)" by code_simp
  have row: "computeWeights 30 (1, 0) = (0.7, 0.3)" by (simp add: computeWeights_def)
  have "fst (train_model demo_fit 7 100 0.2 (?md, snd four_month_user)) \<longrightarrow>
      weights_of (fst (snd (train_model demo_fit 7 100 0.2 (?md, snd four_month_user))))
        = computeWeights (transaction_count ?md) (weights_of ?md)"
    using train_model_recomputes_weights
      [of demo_fit 7 100 "0.2" ?md "snd four_month_user" 30 "(1, 0)" 5 30]
    by (rule conjunct1)
  with ok have "weights_of (fst (snd (train_model demo_fit 7 100 0.2 (?md, snd four_month_user))))
        = computeWeights (transaction_count ?md) (weights_of ?md)"
    by (rule rev_mp)
  then have "weights_of (fst (snd (train_model demo_fit 7 100 0.2 (?md, snd four_month_user))))
        = (0.7, 0.3)"
    unfolding tc prior row .
  with ok prior show ?thesis by blast
qed


section \<open>The scaler file over sequences of operations\<close>

lemma load_metadata_files:
  "model_file (snd (load_metadata now store)) = model_file store"
  "scaler_file (snd (load_metadata now store)) = scaler_file store"
  "data_file (snd (load_metadata now store)) = data_file store"
  by (simp_all add: load_metadata_def Let_def split: option.splits)

lemma initialize_scaler:
  "scaler_file (snd (initialize_from_base_model base store)) = Some s \<Longrightarrow>
   scaler_file store = Some s \<or> base_scaler_file base = Some s"
  by (cases "base_scaler_file base" rule: load.cases)
     (auto simp: initialize_from_base_model_def Let_def split: option.splits if_splits)

lemma initialize_keeps_paired:
  "paired store \<Longrightarrow> paired (snd (initialize_from_base_model base store))"
  by (auto simp: initialize_from_base_model_def paired_def Let_def split: option.splits if_splits)

lemma init_keeps_paired:
  "paired store \<Longrightarrow> paired (snd (PersonalizedExpensePredictor_init base now store))"
proof -
  assume p: "paired store"
  have "paired (snd (load_metadata now store))"
    using p by (simp add: paired_def load_metadata_files)
  then show ?thesis
    by (auto simp: PersonalizedExpensePredictor_init_def initialize_keeps_paired split: prod.splits)
qed

lemma init_keeps_scaler:
  assumes "paired store" "scaler_file store = Some s"
  shows "scaler_file (snd (PersonalizedExpensePredictor_init base now store)) = Some s"
proof -
  from assms have "model_file store \<noteq> None" by (simp add: paired_def)
  with assms(2) show ?thesis
    using load_metadata_files[of now store]
    by (auto simp: PersonalizedExpensePredictor_init_def split: prod.splits)
qed

lemma init_scaler_origin:
  assumes "scaler_file (snd (PersonalizedExpensePredictor_init base now store)) = Some s"
  shows "scaler_file store = Some s \<or> base_scaler_file base = Some s"
  using assms load_metadata_files[of now store] initialize_scaler[of base "snd (load_metadata now store)" s]
  by (auto simp: PersonalizedExpensePredictor_init_def split: prod.splits if_splits)

lemma add_transaction_data_files:
  "model_file (snd (add_transaction_data df obj)) = model_file (snd obj)"
  "scaler_file (snd (add_transaction_data df obj)) = scaler_file (snd obj)"
  by (cases obj; simp add: add_transaction_data_def Let_def split: option.splits)+

lemma step_keeps_paired: "paired (snd obj) \<Longrightarrow> paired (snd (step op obj))"
proof (cases op)
  case (Construct base now)
  assume "paired (snd obj)"
  with Construct show ?thesis by (simp add: init_keeps_paired)
next
  case (AddTransactions df)
  assume "paired (snd obj)"
  with AddTransactions show ?thesis by (simp add: paired_def add_transaction_data_files)
next
  case (Train f now n split)
  assume "paired (snd obj)"
  with Train show ?thesis
    using train_model_files[of f now n split obj] train_model_model_file[of obj f now n split]
    by (auto simp: paired_def)
next
  case (Predict base i e m s)
  assume "paired (snd obj)"
  with Predict show ?thesis by simp
qed

lemma step_keeps_scaler:
  assumes "paired (snd obj)" "scaler_file (snd obj) = Some s"
  shows "scaler_file (snd (step op obj)) = Some s"
  using assms
  by (cases op) (simp_all add: init_keeps_scaler add_transaction_data_files train_model_files)

lemma step_scaler_origin:
  assumes "scaler_file (snd (step op obj)) = Some s"
  shows "scaler_file (snd obj) = Some s \<or> (\<exists>base now. op = Construct base now \<and> base_scaler_file base = Some s)"
  using assms
  by (cases op) (auto simp: add_transaction_data_files train_model_files dest: init_scaler_origin)

lemma run_append: "run (ops @ later) obj = run later (run ops obj)"
  by (induction ops arbitrary: obj) simp_all

lemma run_keeps_paired: "paired (snd obj) \<Longrightarrow> paired (snd (run ops obj))"
  by (induction ops arbitrary: obj) (simp_all add: step_keeps_paired)

lemma run_keeps_scaler:
  "paired (snd obj) \<Longrightarrow> scaler_file (snd obj) = Some s \<Longrightarrow> scaler_file (snd (run ops obj)) = Some s"
  by (induction ops arbitrary: obj) (simp_all add: step_keeps_paired step_keeps_scaler)

lemma run_scaler_origin:
  "scaler_file (snd (run ops obj)) = Some s \<Longrightarrow>
   scaler_file (snd obj) = Some s \<or> (\<exists>base now. Construct base now \<in> set ops \<and> base_scaler_file base = Some s)"
proof (induction ops arbitrary: obj)
  case Nil
  then show ?case by simp
next
  case (Cons op ops)
  from Cons.prems have "scaler_file (snd (run ops (step op obj))) = Some s" by simp
  from Cons.IH[OF this] show ?case
  proof
    assume "scaler_file (snd (step op obj)) = Some s"
    from step_scaler_origin[OF this] show ?thesis by auto
  next
    assume "\<exists>base now. Construct base now \<in> set ops \<and> base_scaler_file base = Some s"
    then show ?thesis by auto
  qed
qed

lemma paired_empty: "paired empty_store"
  by (simp add: paired_def empty_store_def)

text \<open>
  Claim C9. Training loads the stored scaler, applies it to the features, and writes the
  regressor file and the metadata only: the scaler file and the log are as before. Over
  any sequence of operations that starts from a user without files, a scaler file once
  present stays the same file under every later operation, and it is a copy of the base
  scaler file as it was at one of the constructor runs so far.
\<close>

theorem scaler_fixed_after_bootstrap:
  "scaler_file (snd (snd (train_model f now n split obj))) = scaler_file (snd obj)
   \<and> data_file (snd (snd (train_model f now n split obj))) = data_file (snd obj)
   \<and> (fst (train_model f now n split obj) \<longrightarrow>
        (\<exists>X y model sc X_scaled model' hist.
            prepare_training_data (snd obj) = Inr (X, y)
          \<and> load (model_file (snd obj)) = Some model
          \<and> load (scaler_file (snd obj)) = Some sc
          \<and> those (map sc X) = Some X_scaled
          \<and> f model X_scaled y
               \<lparr>epochs = n, batch_size = min 32 (length X), validation_split = split,
                patience = 10, restore_best_weights = True\<rparr> = Some (model', hist)
          \<and> model_file (snd (snd (train_model f now n split obj))) = Some (Stored model')))
   \<and> (scaler_file (snd (run ops (md, empty_store))) = Some s \<longrightarrow>
        scaler_file (snd (run (ops @ later) (md, empty_store))) = Some s
        \<and> (\<exists>base t. Construct base t \<in> set ops \<and> base_scaler_file base = Some s))"
proof -
  have trained: "fst (train_model f now n split obj) \<longrightarrow>
        (\<exists>X y model sc X_scaled model' hist.
            prepare_training_data (snd obj) = Inr (X, y)
          \<and> load (model_file (snd obj)) = Some model
          \<and> load (scaler_file (snd obj)) = Some sc
          \<and> those (map sc X) = Some X_scaled
          \<and> f model X_scaled y
               \<lparr>epochs = n, batch_size = min 32 (length X), validation_split = split,
                patience = 10, restore_best_weights = True\<rparr> = Some (model', hist)
          \<and> model_file (snd (snd (train_model f now n split obj))) = Some (Stored model'))"
  proof
    assume ok: "fst (train_model f now n split obj)"
    obtain md0 store where obj: "obj = (md0, store)" by (cases obj)
    from ok have "fst (train_model f now n split (md0, store))" by (simp add: obj)
    then show "\<exists>X y model sc X_scaled model' hist.
            prepare_training_data (snd obj) = Inr (X, y)
          \<and> load (model_file (snd obj)) = Some model
          \<and> load (scaler_file (snd obj)) = Some sc
          \<and> those (map sc X) = Some X_scaled
          \<and> f model X_scaled y
               \<lparr>epochs = n, batch_size = min 32 (length X), validation_split = split,
                patience = 10, restore_best_weights = True\<rparr> = Some (model', hist)
          \<and> model_file (snd (snd (train_model f now n split obj))) = Some (Stored model')"
    proof (rule train_model_success_cases)
      fix X y model sc X_scaled model' hist v_mae v_mse
      assume a: "prepare_training_data store = Inr (X, y)" "3 \<le> length X"
        "load (model_file store) = Some model" "load (scaler_file store) = Some sc"
        "those (map sc X) = Some X_scaled"
        "f model X_scaled y
           \<lparr>epochs = n, batch_size = min 32 (length X), validation_split = split,
            patience = 10, restore_best_weights = True\<rparr> = Some (model', hist)"
        "history_last (val_mae hist) = Some v_mae" "history_last (val_loss hist) = Some v_mse"
      from a have "model_file (snd (snd (train_model f now n split (md0, store)))) = Some (Stored model')"
        by (rule train_model_success_value(1))
      with a show ?thesis unfolding obj by auto
    qed
  qed
  have kept: "scaler_file (snd (run ops (md, empty_store))) = Some s \<longrightarrow>
        scaler_file (snd (run (ops @ later) (md, empty_store))) = Some s
        \<and> (\<exists>base t. Construct base t \<in> set ops \<and> base_scaler_file base = Some s)"
  proof
    assume present: "scaler_file (snd (run ops (md, empty_store))) = Some s"
    have "paired (snd (run ops (md, empty_store)))"
      by (rule run_keeps_paired) (simp add: paired_empty)
    from run_keeps_scaler[OF this present]
    have stays: "scaler_file (snd (run (ops @ later) (md, empty_store))) = Some s"
      by (simp add: run_append)
    from run_scaler_origin[OF present]
    have origin: "\<exists>base t. Construct base t \<in> set ops \<and> base_scaler_file base = Some s"
      by (simp add: empty_store_def)
    from stays origin
    show "scaler_file (snd (run (ops @ later) (md, empty_store))) = Some s
        \<and> (\<exists>base t. Construct base t \<in> set ops \<and> base_scaler_file base = Some s)" ..
  qed
  from train_model_files[of f now n split obj] trained kept show ?thesis by blast
qed

theorem scaler_fixed_after_bootstrap_witness:
  "scaler_file (snd (run session_start (default_metadata 0, empty_store))) = Some (Stored id_scaler)
   \<and> scaler_file (snd (run (session_start @ session_later) (default_metadata 0, empty_store)))
       = Some (Stored id_scaler)
   \<and> base_scaler_file other_base \<noteq> Some (Stored id_scaler)
   \<and> fst (train_model demo_fit 7 100 0.2 four_month_user)
   \<and> scaler_file (snd (snd (train_model demo_fit 7 100 0.2 four_month_user)))
       = scaler_file (snd four_month_user)"
proof -
  have present: "scaler_file (snd (run session_start (default_metadata 0, empty_store)))
      = Some (Stored id_scaler)"
    by (simp add: session_start_def PersonalizedExpensePredictor_init_def load_metadata_def
        empty_store_def initialize_from_base_model_def demo_base_def Let_def)
  have "half_scaler [2] \<noteq> id_scaler [2]" by (simp add: half_scaler_def id_scaler_def)
  then have "half_scaler \<noteq> id_scaler" by metis
  then have other: "base_scaler_file other_base \<noteq> Some (Stored id_scaler)"
    by (simp add: other_base_def)
  have ok: "fst (train_model demo_fit 7 100 0.2 four_month_user)" by code_simp
  note inst = scaler_fixed_after_bootstrap
      [of demo_fit 7 100 "0.2" four_month_user session_start "default_metadata 0"
          "Stored id_scaler" session_later]
  from inst present other ok show ?thesis by blast
qed


section \<open>Properties of the training set\<close>

lemma find_SomeD: "find P xs = Some x \<Longrightarrow> P x \<and> x \<in> set xs"
  by (induction xs) (auto split: if_splits)

lemma set_monthly_keys:
  "(\<lambda>(k, ty, v). k) ` set (monthly_data txns) = year_month ` set txns"
  by (force simp: monthly_data_def)

lemma set_pivot_columns:
  "set (pivot_columns (monthly_data txns)) = ttype ` set txns"
  by (force simp: pivot_columns_def monthly_data_def)

lemma columns_type_present:
  "(ty \<in> set (pivot_columns (monthly_data txns))) = type_present txns ty"
  by (simp add: set_pivot_columns type_present_def)

lemma pivot_index_month_keys:
  "pivot_index (monthly_data txns) = month_keys txns"
proof -
  have "set (map (\<lambda>(k, ty, v). k) (monthly_data txns)) = year_month ` set txns"
    using set_monthly_keys by simp
  then show ?thesis
    unfolding pivot_index_def month_keys_def
    by (metis sorted_list_of_set_sort_remdups)
qed

lemma pivot_cell_month_total:
  "pivot_cell (monthly_data txns) k ty = month_total txns k ty"
proof (cases "find (\<lambda>(k', ty', v). k' = k \<and> ty' = ty) (monthly_data txns)")
  case None
  then have "\<not> (\<exists>t \<in> set txns. year_month t = k \<and> ttype t = ty)"
    by (force simp: find_None_iff monthly_data_def)
  then have "filter (\<lambda>t. year_month t = k \<and> ttype t = ty) txns = []"
    by (auto simp: filter_empty_conv)
  with None show ?thesis by (simp add: pivot_cell_def month_total_def)
next
  case (Some e)
  from find_SomeD[OF Some] obtain v where e: "e = (k, ty, v)" and mem: "e \<in> set (monthly_data txns)"
    by (cases e) auto
  from mem e have "v = month_total txns k ty"
    by (auto simp: monthly_data_def month_total_def)
  with Some e show ?thesis by (simp add: pivot_cell_def)
qed

lemma monthly_pivot_sorted:
  "sort_key row_year_month (monthly_pivot (monthly_data txns)) = monthly_pivot (monthly_data txns)"
proof (rule sort_key_id_if_sorted)
  have "map row_year_month (monthly_pivot (monthly_data txns)) = month_keys txns"
    by (simp add: monthly_pivot_def pivot_index_month_keys comp_def)
  then show "sorted (map row_year_month (monthly_pivot (monthly_data txns)))"
    by (simp add: month_keys_def)
qed

lemma length_monthly_pivot:
  "length (monthly_pivot (monthly_data txns)) = length (month_keys txns)"
  by (simp add: monthly_pivot_def pivot_index_month_keys)

lemma monthly_pivot_nth:
  "i < length (month_keys txns) \<Longrightarrow>
   monthly_pivot (monthly_data txns) ! i =
     \<lparr>row_year_month = month_keys txns ! i,
      row_income = month_total txns (month_keys txns ! i) ''income'',
      row_expense = month_total txns (month_keys txns ! i) ''expense'',
      row_savings = month_total txns (month_keys txns ! i) ''income''
                    - month_total txns (month_keys txns ! i) ''expense''\<rparr>"
  by (simp add: monthly_pivot_def pivot_index_month_keys pivot_cell_month_total)

text \<open>The training-set construction in terms of the month-keys and the monthly totals.\<close>

lemma prepare_training_data_eq:
  assumes "data_file store = Some data"
  shows "prepare_training_data store =
    (if \<not> type_present (rows data) ''income'' \<or> \<not> type_present (rows data) ''expense''
     then Inl InsufficientDataTypes
     else if length (month_keys (rows data)) < 2 then Inl InsufficientSequentialData
     else Inr (map (pair_features (rows data)) [0 ..< length (month_keys (rows data)) - 1],
               map (pair_target (rows data)) [0 ..< length (month_keys (rows data)) - 1]))"
proof -
  let ?txns = "rows data"
  let ?n = "length (month_keys ?txns)"
  let ?mp = "monthly_pivot (monthly_data ?txns)"
  have X: "map (\<lambda>i. [row_income (?mp ! i), row_expense (?mp ! i),
                      real (snd (row_year_month (?mp ! i))), row_savings (?mp ! i)])
             [0 ..< ?n - Suc 0]
           = map (pair_features ?txns) [0 ..< ?n - Suc 0]"
    by (rule map_cong) (simp_all add: monthly_pivot_nth pair_features_def Let_def)
  have y: "map (\<lambda>i. row_expense (?mp ! Suc i)) [0 ..< ?n - Suc 0]
           = map (pair_target ?txns) [0 ..< ?n - Suc 0]"
    by (rule map_cong) (simp_all add: monthly_pivot_nth pair_target_def Let_def)
  have short: "(?n \<le> Suc 0) = (?n < 2)" by auto
  show ?thesis
    unfolding prepare_training_data_def
    by (simp add: assms Let_def columns_type_present monthly_pivot_sorted
        length_monthly_pivot X y short del: upt_Suc)
qed

lemma month_total_absent:
  "\<not> type_present_in_month txns k ty \<Longrightarrow> month_total txns k ty = 0"
proof -
  assume "\<not> type_present_in_month txns k ty"
  then have "filter (\<lambda>t. year_month t = k \<and> ttype t = ty) txns = []"
    by (auto simp: type_present_in_month_def filter_empty_conv)
  then show ?thesis by (simp add: month_total_def)
qed


text \<open>
  Claim C3, as stated, fails: the log with income in January 2024 and income and expense
  in February 2024 has no expense in January, yet the construction does not fail and emits
  a pair whose features are January's, with expense 0.
\<close>

theorem month_lacking_a_type_is_included:
  "prepare_training_data (store_of gap_log) = Inr ([[1000, 0, 1, 1000]], [750])
   \<and> month_keys gap_log = [(2024, 1), (2024, 2)]
   \<and> \<not> type_present_in_month gap_log (2024, 1) ''expense''"
  by code_simp

text \<open>
  Claim C3, amended. The construction fails with InsufficientDataTypes exactly when the
  log as a whole has no income transaction or no expense transaction. Every month-key of
  the log is kept: the number of pairs is the number of month-keys less one, and where a
  month has no transaction of a type, the total of that type in the emitted features and
  targets is 0.
\<close>

theorem insufficient_data_types_only_for_whole_log:
  assumes "data_file store = Some data"
  shows "(prepare_training_data store = Inl InsufficientDataTypes
           \<longleftrightarrow> \<not> type_present (rows data) ''income'' \<or> \<not> type_present (rows data) ''expense'')
       \<and> (prepare_training_data store = Inr (X, y) \<longrightarrow>
            length X = length (month_keys (rows data)) - 1
          \<and> length y = length (month_keys (rows data)) - 1
          \<and> (\<forall>i < length (month_keys (rows data)) - 1.
               (\<not> type_present_in_month (rows data) (month_keys (rows data) ! i) ''income''
                  \<longrightarrow> X ! i ! 0 = 0)
             \<and> (\<not> type_present_in_month (rows data) (month_keys (rows data) ! i) ''expense''
                  \<longrightarrow> X ! i ! 1 = 0)
             \<and> (\<not> type_present_in_month (rows data) (month_keys (rows data) ! (i + 1)) ''expense''
                  \<longrightarrow> y ! i = 0)))"
proof -
  note eq = prepare_training_data_eq[OF assms]
  have fails: "prepare_training_data store = Inl InsufficientDataTypes
           \<longleftrightarrow> \<not> type_present (rows data) ''income'' \<or> \<not> type_present (rows data) ''expense''"
    by (simp add: eq)
  have emitted: "prepare_training_data store = Inr (X, y) \<longrightarrow>
            length X = length (month_keys (rows data)) - 1
          \<and> length y = length (month_keys (rows data)) - 1
          \<and> (\<forall>i < length (month_keys (rows data)) - 1.
               (\<not> type_present_in_month (rows data) (month_keys (rows data) ! i) ''income''
                  \<longrightarrow> X ! i ! 0 = 0)
             \<and> (\<not> type_present_in_month (rows data) (month_keys (rows data) ! i) ''expense''
                  \<longrightarrow> X ! i ! 1 = 0)
             \<and> (\<not> type_present_in_month (rows data) (month_keys (rows data) ! (i + 1)) ''expense''
                  \<longrightarrow> y ! i = 0))"
  proof
    assume "prepare_training_data store = Inr (X, y)"
    with eq have X: "X = map (pair_features (rows data)) [0 ..< length (month_keys (rows data)) - 1]"
      and y: "y = map (pair_target (rows data)) [0 ..< length (month_keys (rows data)) - 1]"
      by (auto split: if_splits)
    show "length X = length (month_keys (rows data)) - 1
          \<and> length y = length (month_keys (rows data)) - 1
          \<and> (\<forall>i < length (month_keys (rows data)) - 1.
               (\<not> type_present_in_month (rows data) (month_keys (rows data) ! i) ''income''
                  \<longrightarrow> X ! i ! 0 = 0)
             \<and> (\<not> type_present_in_month (rows data) (month_keys (rows data) ! i) ''expense''
                  \<longrightarrow> X ! i ! 1 = 0)
             \<and> (\<not> type_present_in_month (rows data) (month_keys (rows data) ! (i + 1)) ''expense''
                  \<longrightarrow> y ! i = 0))"
      unfolding X y
      by (simp add: pair_features_def pair_target_def Let_def month_total_absent del: upt_Suc)
  qed
  from fails emitted show ?thesis ..
qed

theorem insufficient_data_types_only_for_whole_log_witness:
  "data_file (store_of gap_log) = Some (frame_of gap_log)
   \<and> type_present gap_log ''income'' \<and> type_present gap_log ''expense''
   \<and> prepare_training_data (store_of gap_log) \<noteq> Inl InsufficientDataTypes
   \<and> prepare_training_data (store_of gap_log) = Inr ([[1000, 0, 1, 1000]], [750])
   \<and> \<not> type_present_in_month gap_log (month_keys gap_log ! 0) ''expense''
   \<and> [[1000, 0, 1, 1000 :: real]] ! 0 ! 1 = 0"
proof -
  have d: "data_file (store_of gap_log) = Some (frame_of gap_log)"
    by (simp add: store_of_def)
  have r: "rows (frame_of gap_log) = gap_log" by (simp add: frame_of_def)
  have tp: "type_present gap_log ''income'' \<and> type_present gap_log ''expense''" by code_simp
  have res: "prepare_training_data (store_of gap_log) = Inr ([[1000, 0, 1, 1000]], [750])"
    by code_simp
  have len: "0 < length (month_keys gap_log) - 1" by code_simp
  have absent: "\<not> type_present_in_month gap_log (month_keys gap_log ! 0) ''expense''"
    by code_simp
  note inst = insufficient_data_types_only_for_whole_log
      [OF d, of "[[1000, 0, 1, 1000]]" "[750]", unfolded r]
  from inst tp have nofail: "prepare_training_data (store_of gap_log) \<noteq> Inl InsufficientDataTypes"
    by blast
  from inst res len absent have "[[1000, 0, 1, 1000 :: real]] ! 0 ! 1 = 0" by blast
  with d tp nofail res absent show ?thesis by blast
qed




end
